theory Spec2Isabelle
  imports Complex_Main "HOL-Library.Char_ord" "HOL-Library.List_Lexorder"
    "HOL-Library.Product_Lexorder" "HOL-Library.Multiset"
begin

section \<open>Bank statement pipeline of \<^verbatim>\<open>app.py\<close>\<close>

text \<open>
  The development embeds the data path of \<^verbatim>\<open>app.py\<close>: \<^verbatim>\<open>process_pdf\<close> (the table
  normaliser), \<^verbatim>\<open>create_summary\<close>, \<^verbatim>\<open>create_daily_totals\<close>,
  \<^verbatim>\<open>create_monthly_totals\<close> and the part of \<^verbatim>\<open>upload_file\<close> that calls them.

  Conventions of the embedding.
  \<^item> A data frame is a list of rows; a column is read off the rows. A cell of a frame
    handed over by the PDF extraction library is missing (\<open>NaN\<close>), a text or a
    number.
  \<^item> Monetary values are exact rationals. The program computes with binary floating
    point; rounding is not part of this model, only the infinities and the missing
    value that a division by zero produces are (type \<open>fval\<close>).
  \<^item> Every Python exception is a value \<open>Inl e\<close> of the result.
  \<^item> Two operations of the data frame library whose behaviour the program does not
    fix are parameters of \<open>process_pdf\<close>: the row sort behind
    \<^verbatim>\<open>sort_values\<close> (called with the library's default algorithm, documented as a
    quicksort that is not stable) and the number reader behind \<^verbatim>\<open>to_numeric\<close>.
\<close>

subsection \<open>Cells, raw tables, errors\<close>

datatype cell = NaN | Str string | Num rat

datatype error = ValueError | AttributeError | IndexError

text \<open>A raw page table: \<^verbatim>\<open>len(table.columns)\<close> and the rows, first to last.\<close>

record raw_table =
  n_columns :: nat
  body :: "cell list list"

text \<open>Cell \<open>i\<close> of a row; a frame is rectangular, a short row reads as missing.\<close>

definition cell_at :: "cell list \<Rightarrow> nat \<Rightarrow> cell" where
  "cell_at r i = (if i < length r then r ! i else NaN)"

text \<open>Calendar dates as (year, month, day), ordered lexicographically.\<close>

type_synonym date = "nat \<times> nat \<times> nat"

subsection \<open>The date pattern and the date parser\<close>

definition is_digit :: "char \<Rightarrow> bool" where
  "is_digit c \<longleftrightarrow> 48 \<le> (of_char c :: nat) \<and> (of_char c :: nat) \<le> 57"

definition digit_val :: "char \<Rightarrow> nat" where
  "digit_val c = of_char c - 48"

text \<open>The regular expression \<^verbatim>\<open>\d{2}\.\d{2}\.\d{4}\<close> matched at the head of a text.\<close>

fun date_pattern_here :: "string \<Rightarrow> bool" where
  "date_pattern_here (a # b # p # c # d # q # e # f # g # h # rest) =
     (is_digit a \<and> is_digit b \<and> p = CHR ''.'' \<and> is_digit c \<and> is_digit d \<and>
      q = CHR ''.'' \<and> is_digit e \<and> is_digit f \<and> is_digit g \<and> is_digit h)"
| "date_pattern_here s = False"

text \<open>\<^verbatim>\<open>re.search\<close>: the pattern matched at some position of the text.\<close>

fun re_search_date :: "string \<Rightarrow> bool" where
  "re_search_date [] = False"
| "re_search_date (c # cs) = (date_pattern_here (c # cs) \<or> re_search_date cs)"

text \<open>
  \<^verbatim>\<open>Series.str.contains(r'\d{2}\.\d{2}\.\d{4}', na=False)\<close> on one cell: a cell
  that is not a text gives the \<open>na\<close> value, False.
\<close>

definition str_contains_date :: "cell \<Rightarrow> bool" where
  "str_contains_date c = (case c of Str s \<Rightarrow> re_search_date s | NaN \<Rightarrow> False | Num x \<Rightarrow> False)"

text \<open>A text that is the pattern and nothing else: two digits, dot, two digits, dot, four digits.\<close>

definition strict_date :: "string \<Rightarrow> bool" where
  "strict_date s \<longleftrightarrow> length s = 10 \<and> date_pattern_here s"

definition strict_date_cell :: "cell \<Rightarrow> bool" where
  "strict_date_cell c = (case c of Str s \<Rightarrow> strict_date s | NaN \<Rightarrow> False | Num x \<Rightarrow> False)"

text \<open>
  \<^verbatim>\<open>pd.to_datetime(..., format='%d.%m.%Y')\<close> on one text; \<open>None\<close> is the
  \<^verbatim>\<open>ValueError\<close> the library raises when the text is not exactly of that format or
  names no calendar day. The directives read as the library's format expressions do:
  \<^verbatim>\<open>%d\<close> is \<^verbatim>\<open>3[0-1]|[1-2]\d|0[1-9]|[1-9]| [1-9]\<close>, \<^verbatim>\<open>%m\<close> is
  \<^verbatim>\<open>1[0-2]|0[1-9]|[1-9]\<close>, \<^verbatim>\<open>%Y\<close> is four digits. The range of the library's
  timestamp type is not modelled.
\<close>

definition day_of :: "string \<Rightarrow> nat option" where
  "day_of s = (case s of
       [a] \<Rightarrow> if is_digit a \<and> a \<noteq> CHR ''0'' then Some (digit_val a) else None
     | [a, b] \<Rightarrow>
         if a = CHR '' '' \<and> is_digit b \<and> b \<noteq> CHR ''0'' then Some (digit_val b)
         else if is_digit a \<and> is_digit b \<and> 1 \<le> 10 * digit_val a + digit_val b
                 \<and> 10 * digit_val a + digit_val b \<le> 31
         then Some (10 * digit_val a + digit_val b) else None
     | _ \<Rightarrow> None)"

definition month_of :: "string \<Rightarrow> nat option" where
  "month_of s = (case s of
       [a] \<Rightarrow> if is_digit a \<and> a \<noteq> CHR ''0'' then Some (digit_val a) else None
     | [a, b] \<Rightarrow>
         if is_digit a \<and> is_digit b \<and> 1 \<le> 10 * digit_val a + digit_val b
                 \<and> 10 * digit_val a + digit_val b \<le> 12
         then Some (10 * digit_val a + digit_val b) else None
     | _ \<Rightarrow> None)"

definition year_of :: "string \<Rightarrow> nat option" where
  "year_of s = (case s of
       [a, b, c, d] \<Rightarrow>
         if is_digit a \<and> is_digit b \<and> is_digit c \<and> is_digit d
         then Some (1000 * digit_val a + 100 * digit_val b + 10 * digit_val c + digit_val d)
         else None
     | _ \<Rightarrow> None)"

definition leap_year :: "nat \<Rightarrow> bool" where
  "leap_year y \<longleftrightarrow> y mod 4 = 0 \<and> (y mod 100 \<noteq> 0 \<or> y mod 400 = 0)"

definition days_in_month :: "nat \<Rightarrow> nat \<Rightarrow> nat" where
  "days_in_month y m =
     (if m = 2 then (if leap_year y then 29 else 28)
      else if m = 4 \<or> m = 6 \<or> m = 9 \<or> m = 11 then 30 else 31)"

text \<open>The text before the first dot, and the text after it.\<close>

definition split_dot :: "string \<Rightarrow> string \<times> string" where
  "split_dot s = (takeWhile (\<lambda>c. c \<noteq> CHR ''.'') s, drop 1 (dropWhile (\<lambda>c. c \<noteq> CHR ''.'') s))"

definition to_datetime :: "string \<Rightarrow> date option" where
  "to_datetime s =
     (case split_dot s of (d, r) \<Rightarrow>
      (case split_dot r of (m, y) \<Rightarrow>
       (case day_of d of None \<Rightarrow> None | Some dd \<Rightarrow>
        (case month_of m of None \<Rightarrow> None | Some mm \<Rightarrow>
         (case year_of y of None \<Rightarrow> None | Some yy \<Rightarrow>
          if 1 \<le> yy \<and> dd \<le> days_in_month yy mm then Some (yy, mm, dd) else None)))))"

subsection \<open>The table normaliser: \<^verbatim>\<open>process_pdf\<close>\<close>

text \<open>The seven labels that \<^verbatim>\<open>process_pdf\<close> assigns to \<^verbatim>\<open>table.columns\<close>.\<close>

definition canonical_columns :: "string list" where
  "canonical_columns = [''Transaction Date'', ''Value Date'', ''Transaction Details'',
     ''Money Out'', ''Money In'', ''Ledger Balance'', ''Bank Reference Number'']"

text \<open>\<^verbatim>\<open>table.dropna(how='all')\<close>: rows whose cells are all missing are dropped.\<close>

definition dropna_all :: "cell list list \<Rightarrow> cell list list" where
  "dropna_all rows = filter (\<lambda>r. \<not> list_all (\<lambda>c. c = NaN) r) rows"

text \<open>
  The \<^verbatim>\<open>.str\<close> accessor of a column. The extraction library fills an empty cell with
  the floating-point \<^verbatim>\<open>nan\<close>, so a column without a single text is a numeric column,
  and the accessor raises \<^verbatim>\<open>AttributeError\<close> on it.
\<close>

definition is_text :: "cell \<Rightarrow> bool" where
  "is_text c = (case c of Str s \<Rightarrow> True | NaN \<Rightarrow> False | Num x \<Rightarrow> False)"

definition str_accessor_ok :: "cell list list \<Rightarrow> bool" where
  "str_accessor_ok rows = list_ex (\<lambda>r. is_text (cell_at r 0)) rows"

text \<open>
  The body of the loop of \<^verbatim>\<open>process_pdf\<close> for one table with six columns or more.
  Assigning seven labels to a frame that does not have seven columns raises
  \<^verbatim>\<open>ValueError\<close> (length mismatch).
\<close>

definition process_table :: "raw_table \<Rightarrow> error + cell list list" where
  "process_table t =
     (if n_columns t \<noteq> length canonical_columns then Inl ValueError
      else if \<not> str_accessor_ok (dropna_all (body t)) then Inl AttributeError
      else Inr (filter (\<lambda>r. str_contains_date (cell_at r 0)) (dropna_all (body t))))"

text \<open>The loop \<^verbatim>\<open>for table in tables\<close>, building \<^verbatim>\<open>processed_tables\<close>.\<close>

fun process_tables :: "raw_table list \<Rightarrow> error + cell list list list" where
  "process_tables [] = Inr []"
| "process_tables (t # ts) =
     (if 6 \<le> n_columns t then
        (case process_table t of
           Inl e \<Rightarrow> Inl e
         | Inr p \<Rightarrow> (case process_tables ts of Inl e \<Rightarrow> Inl e | Inr ps \<Rightarrow> Inr (p # ps)))
      else process_tables ts)"

text \<open>
  \<^verbatim>\<open>pd.to_datetime\<close> on the transaction-date column of the concatenated frame:
  one unreadable cell fails the whole call. A row of the result carries its parsed date
  and its other cells as extracted.
\<close>

fun parse_dates :: "cell list list \<Rightarrow> (date \<times> cell list) list option" where
  "parse_dates [] = Some []"
| "parse_dates (r # rs) =
     (case cell_at r 0 of
        Str s \<Rightarrow>
          (case to_datetime s of
             None \<Rightarrow> None
           | Some d \<Rightarrow> (case parse_dates rs of None \<Rightarrow> None | Some ds \<Rightarrow> Some ((d, r) # ds)))
      | NaN \<Rightarrow> None
      | Num x \<Rightarrow> None)"

text \<open>\<^verbatim>\<open>replace('[\$,]', '', regex=True)\<close> on one text.\<close>

definition strip_currency :: "string \<Rightarrow> string" where
  "strip_currency s = filter (\<lambda>c. c \<noteq> CHR ''$'' \<and> c \<noteq> CHR '','') s"

text \<open>
  The clean-up of one monetary cell: the replacement touches texts only, then
  \<^verbatim>\<open>pd.to_numeric(errors='coerce')\<close> reads the text with the library's number reader
  \<open>num\<close>; what it cannot read becomes missing.
\<close>

definition clean_money :: "(string \<Rightarrow> rat option) \<Rightarrow> cell \<Rightarrow> rat option" where
  "clean_money num c = (case c of NaN \<Rightarrow> None | Num x \<Rightarrow> Some x | Str s \<Rightarrow> num (strip_currency s))"

text \<open>A transaction record: one row of the ledger.\<close>

record txn =
  Transaction_Date :: date
  Value_Date :: cell
  Transaction_Details :: cell
  Money_Out :: "rat option"
  Money_In :: "rat option"
  Ledger_Balance :: "rat option"
  Bank_Reference_Number :: cell

definition to_txn :: "(string \<Rightarrow> rat option) \<Rightarrow> date \<times> cell list \<Rightarrow> txn" where
  "to_txn num dr = (case dr of (d, r) \<Rightarrow>
     \<lparr>Transaction_Date = d,
      Value_Date = cell_at r 1,
      Transaction_Details = cell_at r 2,
      Money_Out = clean_money num (cell_at r 3),
      Money_In = clean_money num (cell_at r 4),
      Ledger_Balance = clean_money num (cell_at r 5),
      Bank_Reference_Number = cell_at r 6\<rparr>)"

text \<open>
  The ledger frame \<^verbatim>\<open>df\<close>: its rows, and the column \<^verbatim>\<open>Month\<close>, which the frame
  does not have until \<^verbatim>\<open>create_monthly_totals\<close> adds it.
\<close>

record ledger =
  records :: "txn list"
  Month :: "string list option"

text \<open>
  What the program relies on from \<^verbatim>\<open>sort_values('Transaction Date')\<close>: the rows
  come back rearranged, in ascending order of the date.
\<close>

definition sorts_by_date :: "((date \<times> cell list) list \<Rightarrow> (date \<times> cell list) list) \<Rightarrow> bool" where
  "sorts_by_date srt \<longleftrightarrow> (\<forall>xs. mset (srt xs) = mset xs \<and> sorted (map fst (srt xs)))"

text \<open>The rows of \<^verbatim>\<open>final_df\<close> before the dates are parsed (lines 141 and 142).\<close>

definition concat_rows :: "cell list list list \<Rightarrow> cell list list" where
  "concat_rows processed =
     filter (\<lambda>r. cell_at r 0 \<noteq> Str ''Transaction Date'') (concat processed)"

text \<open>
  \<^verbatim>\<open>process_pdf\<close>. \<open>Inr None\<close> is the \<^verbatim>\<open>None\<close> the function returns when
  \<^verbatim>\<open>processed_tables\<close> is empty.
\<close>

definition process_pdf ::
  "((date \<times> cell list) list \<Rightarrow> (date \<times> cell list) list) \<Rightarrow> (string \<Rightarrow> rat option) \<Rightarrow>
   raw_table list \<Rightarrow> error + ledger option" where
  "process_pdf srt num tables =
     (case process_tables tables of
        Inl e \<Rightarrow> Inl e
      | Inr processed \<Rightarrow>
          if processed = [] then Inr None
          else
            (case parse_dates (concat_rows processed) of
               None \<Rightarrow> Inl ValueError
             | Some dated \<Rightarrow>
                 Inr (Some \<lparr>records = map (to_txn num) (srt dated), Month = None\<rparr>)))"

subsection \<open>Numbers of the aggregates\<close>

text \<open>
  The value of a floating-point expression that may divide by zero: a finite number,
  an infinity, or the missing value \<^verbatim>\<open>nan\<close> (what the library calls null).
\<close>

datatype fval = Fin rat | PInf | NInf | Nan

text \<open>Division of two finite floating-point numbers; a zero divisor does not raise.\<close>

definition fdiv :: "rat \<Rightarrow> rat \<Rightarrow> fval" where
  "fdiv a b = (if b \<noteq> 0 then Fin (a / b) else if 0 < a then PInf else if a < 0 then NInf else Nan)"

definition minus1 :: "fval \<Rightarrow> fval" where
  "minus1 v = (case v of Fin x \<Rightarrow> Fin (x - 1) | PInf \<Rightarrow> PInf | NInf \<Rightarrow> NInf | Nan \<Rightarrow> Nan)"

definition times100 :: "fval \<Rightarrow> fval" where
  "times100 v = (case v of Fin x \<Rightarrow> Fin (x * 100) | PInf \<Rightarrow> PInf | NInf \<Rightarrow> NInf | Nan \<Rightarrow> Nan)"

text \<open>\<^verbatim>\<open>Series.sum()\<close>, also as a group aggregate: missing values are skipped.\<close>

definition nansum :: "rat option list \<Rightarrow> rat" where
  "nansum xs = sum_list (map (\<lambda>v. case v of None \<Rightarrow> 0 | Some x \<Rightarrow> x) xs)"

text \<open>\<^verbatim>\<open>Series.notna().sum()\<close> on a monetary column.\<close>

definition notna_count :: "rat option list \<Rightarrow> nat" where
  "notna_count xs = length (filter (\<lambda>v. v \<noteq> None) xs)"

text \<open>The group aggregate \<^verbatim>\<open>'count'\<close> on a column of cells: the cells that are not missing.\<close>

definition count_cells :: "cell list \<Rightarrow> nat" where
  "count_cells cs = length (filter (\<lambda>c. c \<noteq> NaN) cs)"

text \<open>The values of a monetary column that are present.\<close>

definition present :: "rat option list \<Rightarrow> rat list" where
  "present xs = concat (map (\<lambda>v. case v of None \<Rightarrow> [] | Some x \<Rightarrow> [x]) xs)"

definition mean :: "rat option list \<Rightarrow> fval" where
  "mean xs = (if present xs = [] then Nan else Fin (sum_list (present xs) / of_nat (length (present xs))))"

definition series_max :: "rat option list \<Rightarrow> fval" where
  "series_max xs = (case present xs of [] \<Rightarrow> Nan | y # ys \<Rightarrow> Fin (fold max ys y))"

definition series_min :: "rat option list \<Rightarrow> fval" where
  "series_min xs = (case present xs of [] \<Rightarrow> Nan | y # ys \<Rightarrow> Fin (fold min ys y))"

text \<open>\<^verbatim>\<open>Series.iloc[0]\<close> and \<^verbatim>\<open>Series.iloc[-1]\<close>: out of bounds on an empty column.\<close>

definition iloc_first :: "'a list \<Rightarrow> error + 'a" where
  "iloc_first xs = (case xs of [] \<Rightarrow> Inl IndexError | y # ys \<Rightarrow> Inr y)"

definition iloc_last :: "'a list \<Rightarrow> error + 'a" where
  "iloc_last xs = (case xs of [] \<Rightarrow> Inl IndexError | y # ys \<Rightarrow> Inr (last xs))"

text \<open>The sorted distinct keys of \<^verbatim>\<open>groupby\<close> (its default \<^verbatim>\<open>sort=True\<close>).\<close>

definition group_keys :: "('k :: linorder) list \<Rightarrow> 'k list" where
  "group_keys ks = sort (remdups ks)"

subsection \<open>\<^verbatim>\<open>create_summary\<close>\<close>

record summary =
  Total_Money_In :: rat
  Total_Money_Out :: rat
  Net_Movement :: rat
  Number_of_Transactions :: nat
  Number_of_Incoming_Transactions :: nat
  Number_of_Outgoing_Transactions :: nat
  Average_Transaction_In :: fval
  Average_Transaction_Out :: fval
  Largest_Transaction_In :: fval
  Largest_Transaction_Out :: fval
  First_Transaction_Date :: date
  Last_Transaction_Date :: date

text \<open>
  Every function below receives the frame \<^verbatim>\<open>df\<close> by reference; the model returns
  the frame as the call leaves it, next to the value the call returns.
  \<^verbatim>\<open>create_summary\<close> assigns nothing to \<^verbatim>\<open>df\<close>.
\<close>

definition summary_of :: "txn list \<Rightarrow> error + summary" where
  "summary_of rows =
     (let ins = map Money_In rows;
          outs = map Money_Out rows;
          dates = map Transaction_Date rows
      in (case iloc_first dates of
            Inl e \<Rightarrow> Inl e
          | Inr first_date \<Rightarrow>
              (case iloc_last dates of
                 Inl e \<Rightarrow> Inl e
               | Inr last_date \<Rightarrow>
                   Inr \<lparr>Total_Money_In = nansum ins,
                        Total_Money_Out = nansum outs,
                        Net_Movement = nansum ins + nansum outs,
                        Number_of_Transactions = length rows,
                        Number_of_Incoming_Transactions = notna_count ins,
                        Number_of_Outgoing_Transactions = notna_count outs,
                        Average_Transaction_In = mean ins,
                        Average_Transaction_Out = mean outs,
                        Largest_Transaction_In = series_max ins,
                        Largest_Transaction_Out = series_min outs,
                        First_Transaction_Date = first_date,
                        Last_Transaction_Date = last_date\<rparr>)))"

definition create_summary :: "ledger \<Rightarrow> (error + summary) \<times> ledger" where
  "create_summary df = (summary_of (records df), df)"

subsection \<open>\<^verbatim>\<open>create_daily_totals\<close>\<close>

text \<open>\<^verbatim>\<open>pd.to_datetime\<close> on a value that is a timestamp already.\<close>

definition as_datetime :: "date \<Rightarrow> date" where
  "as_datetime d = d"

text \<open>\<^verbatim>\<open>df['Transaction Date'] = pd.to_datetime(df['Transaction Date'])\<close>.\<close>

definition assign_dates :: "ledger \<Rightarrow> ledger" where
  "assign_dates df =
     df\<lparr>records := map (\<lambda>r. r\<lparr>Transaction_Date := as_datetime (Transaction_Date r)\<rparr>) (records df)\<rparr>"

record daily_total =
  d_Transaction_Date :: date
  d_Money_In :: rat
  d_Money_Out :: rat
  d_Transaction_Details :: nat
  d_Net_Movement :: rat

definition daily_row :: "txn list \<Rightarrow> date \<Rightarrow> daily_total" where
  "daily_row rows k =
     (let g = filter (\<lambda>r. Transaction_Date r = k) rows
      in \<lparr>d_Transaction_Date = k,
          d_Money_In = nansum (map Money_In g),
          d_Money_Out = nansum (map Money_Out g),
          d_Transaction_Details = count_cells (map Transaction_Details g),
          d_Net_Movement = nansum (map Money_In g) + nansum (map Money_Out g)\<rparr>)"

definition daily_rows :: "txn list \<Rightarrow> daily_total list" where
  "daily_rows rows = map (daily_row rows) (group_keys (map Transaction_Date rows))"

definition create_daily_totals :: "ledger \<Rightarrow> daily_total list \<times> ledger" where
  "create_daily_totals df = (daily_rows (records (assign_dates df)), assign_dates df)"

subsection \<open>\<^verbatim>\<open>create_monthly_totals\<close>\<close>

definition month_names :: "string list" where
  "month_names = [''January'', ''February'', ''March'', ''April'', ''May'', ''June'', ''July'',
     ''August'', ''September'', ''October'', ''November'', ''December'']"

definition digit_char :: "nat \<Rightarrow> char" where
  "digit_char n = ''0123456789'' ! (n mod 10)"

definition two_digits :: "nat \<Rightarrow> string" where
  "two_digits n = [digit_char (n div 10), digit_char n]"

text \<open>\<^verbatim>\<open>%Y\<close> of a year of the ledger, which has four digits.\<close>

definition four_digits :: "nat \<Rightarrow> string" where
  "four_digits n = [digit_char (n div 1000), digit_char (n div 100), digit_char (n div 10), digit_char n]"

text \<open>\<^verbatim>\<open>strftime('%B %Y')\<close>, the label of a month.\<close>

definition strftime_B_Y :: "date \<Rightarrow> string" where
  "strftime_B_Y d = (case d of (y, m, dd) \<Rightarrow>
     (if 1 \<le> m \<and> m \<le> 12 then month_names ! (m - 1) else []) @ '' '' @ four_digits y)"

text \<open>\<^verbatim>\<open>strftime('%d.%m.%Y')\<close>.\<close>

definition strftime_d_m_Y :: "date \<Rightarrow> string" where
  "strftime_d_m_Y d = (case d of (y, m, dd) \<Rightarrow>
     two_digits dd @ ''.'' @ two_digits m @ ''.'' @ four_digits y)"

text \<open>The new column \<^verbatim>\<open>df['Month']\<close>.\<close>

definition month_column :: "txn list \<Rightarrow> string list" where
  "month_column rows = map (\<lambda>r. strftime_B_Y (Transaction_Date r)) rows"

text \<open>The columns of \<^verbatim>\<open>monthly_totals\<close> after \<^verbatim>\<open>groupby('Month').agg(...)\<close>.\<close>

definition month_group :: "txn list \<Rightarrow> string \<Rightarrow> txn list" where
  "month_group rows k = filter (\<lambda>r. strftime_B_Y (Transaction_Date r) = k) rows"

definition col_Month :: "txn list \<Rightarrow> string list" where
  "col_Month rows = group_keys (month_column rows)"

definition col_Money_In :: "txn list \<Rightarrow> rat list" where
  "col_Money_In rows = map (\<lambda>k. nansum (map Money_In (month_group rows k))) (col_Month rows)"

definition col_Money_Out :: "txn list \<Rightarrow> rat list" where
  "col_Money_Out rows = map (\<lambda>k. nansum (map Money_Out (month_group rows k))) (col_Month rows)"

definition col_Transaction_Details :: "txn list \<Rightarrow> nat list" where
  "col_Transaction_Details rows =
     map (\<lambda>k. count_cells (map Transaction_Details (month_group rows k))) (col_Month rows)"

text \<open>\<^verbatim>\<open>Series.shift(1)\<close> and \<^verbatim>\<open>Series.pct_change()\<close>, which is \<^verbatim>\<open>s / s.shift(1) - 1\<close>.\<close>

definition shift1 :: "rat list \<Rightarrow> rat option list" where
  "shift1 xs = (case xs of [] \<Rightarrow> [] | y # ys \<Rightarrow> None # map Some (butlast xs))"

definition pct_change :: "rat list \<Rightarrow> fval list" where
  "pct_change xs =
     map (\<lambda>(c, p). case p of None \<Rightarrow> Nan | Some q \<Rightarrow> minus1 (fdiv c q)) (zip xs (shift1 xs))"

text \<open>\<^verbatim>\<open>Series.cumsum()\<close>.\<close>

fun cumsum_from :: "rat \<Rightarrow> rat list \<Rightarrow> rat list" where
  "cumsum_from acc [] = []"
| "cumsum_from acc (x # xs) = (acc + x) # cumsum_from (acc + x) xs"

definition cumsum :: "rat list \<Rightarrow> rat list" where
  "cumsum xs = cumsum_from 0 xs"

record monthly_total =
  m_Month :: string
  m_Money_In :: rat
  m_Money_Out :: rat
  m_Transaction_Details :: nat
  m_Net_Movement :: rat
  m_Average_Transaction_Value :: fval
  m_Money_In_Growth :: fval
  m_Money_Out_Growth :: fval
  m_Transaction_Count_Growth :: fval
  m_Running_Total_In :: rat
  m_Running_Total_Out :: rat
  m_Running_Net_Movement :: rat

text \<open>Row \<open>i\<close> of \<^verbatim>\<open>monthly_totals\<close> before the grand total is appended.\<close>

definition monthly_row :: "txn list \<Rightarrow> nat \<Rightarrow> monthly_total" where
  "monthly_row rows i =
     \<lparr>m_Month = col_Month rows ! i,
      m_Money_In = col_Money_In rows ! i,
      m_Money_Out = col_Money_Out rows ! i,
      m_Transaction_Details = col_Transaction_Details rows ! i,
      m_Net_Movement = col_Money_In rows ! i + col_Money_Out rows ! i,
      m_Average_Transaction_Value =
        fdiv (col_Money_In rows ! i + \<bar>col_Money_Out rows ! i\<bar>)
             (of_nat (col_Transaction_Details rows ! i)),
      m_Money_In_Growth = times100 (pct_change (col_Money_In rows) ! i),
      m_Money_Out_Growth = times100 (pct_change (col_Money_Out rows) ! i),
      m_Transaction_Count_Growth =
        times100 (pct_change (map of_nat (col_Transaction_Details rows)) ! i),
      m_Running_Total_In = cumsum (col_Money_In rows) ! i,
      m_Running_Total_Out = cumsum (col_Money_Out rows) ! i,
      m_Running_Net_Movement = cumsum (col_Money_In rows) ! i + cumsum (col_Money_Out rows) ! i\<rparr>"

definition monthly_rows :: "txn list \<Rightarrow> monthly_total list" where
  "monthly_rows rows = map (monthly_row rows) [0..<length (col_Month rows)]"

text \<open>The one-row frame \<^verbatim>\<open>grand_totals\<close>, computed from the rows of \<^verbatim>\<open>monthly_totals\<close>.\<close>

definition grand_totals :: "monthly_total list \<Rightarrow> monthly_total" where
  "grand_totals ms =
     \<lparr>m_Month = ''GRAND TOTAL'',
      m_Money_In = sum_list (map m_Money_In ms),
      m_Money_Out = sum_list (map m_Money_Out ms),
      m_Transaction_Details = sum_list (map m_Transaction_Details ms),
      m_Net_Movement = sum_list (map m_Net_Movement ms),
      m_Average_Transaction_Value =
        fdiv (sum_list (map m_Money_In ms) + sum_list (map (\<lambda>m. \<bar>m_Money_Out m\<bar>) ms))
             (of_nat (sum_list (map m_Transaction_Details ms))),
      m_Money_In_Growth = Nan,
      m_Money_Out_Growth = Nan,
      m_Transaction_Count_Growth = Nan,
      m_Running_Total_In = sum_list (map m_Money_In ms),
      m_Running_Total_Out = sum_list (map m_Money_Out ms),
      m_Running_Net_Movement = sum_list (map m_Net_Movement ms)\<rparr>"

text \<open>
  \<^verbatim>\<open>create_monthly_totals\<close>: the date column is assigned again, the column
  \<^verbatim>\<open>Month\<close> is added to \<^verbatim>\<open>df\<close> itself, and the grand total row is appended to the
  monthly rows.
\<close>

definition create_monthly_totals :: "ledger \<Rightarrow> monthly_total list \<times> ledger" where
  "create_monthly_totals df =
     (let df1 = assign_dates df;
          df2 = df1\<lparr>Month := Some (month_column (records df1))\<rparr>;
          monthly_totals = monthly_rows (records df2)
      in (monthly_totals @ [grand_totals monthly_totals], df2))"

subsection \<open>The calls of \<^verbatim>\<open>upload_file\<close>\<close>

text \<open>
  What \<^verbatim>\<open>upload_file\<close> writes: the frame \<^verbatim>\<open>df\<close> as it stands after the three
  aggregations, with its date column formatted back to text, and the three derived
  frames.
\<close>

record workbook =
  Transactions :: ledger
  Transactions_Date_Text :: "string list"
  Summary :: summary
  Daily_Totals :: "daily_total list"
  Monthly_Analysis :: "monthly_total list"

text \<open>
  \<open>Inr None\<close> is the answer \<^verbatim>\<open>'Error processing PDF - No valid tables found'\<close>;
  \<open>Inl e\<close> is an exception caught by the handler of \<^verbatim>\<open>upload_file\<close>.
\<close>

definition upload_file ::
  "((date \<times> cell list) list \<Rightarrow> (date \<times> cell list) list) \<Rightarrow> (string \<Rightarrow> rat option) \<Rightarrow>
   raw_table list \<Rightarrow> error + workbook option" where
  "upload_file srt num tables =
     (case process_pdf srt num tables of
        Inl e \<Rightarrow> Inl e
      | Inr None \<Rightarrow> Inr None
      | Inr (Some df) \<Rightarrow>
          (case create_summary df of
             (Inl e, df1) \<Rightarrow> Inl e
           | (Inr summary_df, df1) \<Rightarrow>
               (case create_daily_totals df1 of (daily_totals_df, df2) \<Rightarrow>
                (case create_monthly_totals df2 of (monthly_totals_df, df3) \<Rightarrow>
                   Inr (Some \<lparr>Transactions = df3,
                              Transactions_Date_Text =
                                map (\<lambda>r. strftime_d_m_Y (Transaction_Date r)) (records df3),
                              Summary = summary_df,
                              Daily_Totals = daily_totals_df,
                              Monthly_Analysis = monthly_totals_df\<rparr>)))))"

subsection \<open>The growth formula as the specification words it\<close>


subsection \<open>Rows of the raw tables, for the statements about \<^verbatim>\<open>process_pdf\<close>\<close>

text \<open>
  The tables that pass the test \<^verbatim>\<open>len(table.columns) >= 6\<close>; their rows whose
  transaction-date cell contains the date pattern; and their rows whose transaction-date
  cell is the date pattern and nothing else. All three in document order.
\<close>

definition wide_tables :: "raw_table list \<Rightarrow> raw_table list" where
  "wide_tables tables = filter (\<lambda>t. 6 \<le> n_columns t) tables"

definition date_rows :: "raw_table list \<Rightarrow> cell list list" where
  "date_rows tables =
     filter (\<lambda>r. str_contains_date (cell_at r 0)) (concat (map body (wide_tables tables)))"

definition strict_rows :: "raw_table list \<Rightarrow> cell list list" where
  "strict_rows tables =
     filter (\<lambda>r. strict_date_cell (cell_at r 0)) (concat (map body (wide_tables tables)))"

subsection \<open>Instances of the library operations, for the examples\<close>

text \<open>
  A reader of plain decimal numerals (an optional minus sign, digits, an optional
  fraction): what \<^verbatim>\<open>to_numeric\<close> reads on such texts. The general statements below
  hold for every number reader.
\<close>

definition nat_of_digits :: "string \<Rightarrow> nat" where
  "nat_of_digits s = foldl (\<lambda>n c. 10 * n + digit_val c) 0 s"

definition unsigned_decimal :: "string \<Rightarrow> rat option" where
  "unsigned_decimal s = (case split_dot s of (i, f) \<Rightarrow>
     if i \<noteq> [] \<and> list_all is_digit i \<and> list_all is_digit f
     then Some (of_nat (nat_of_digits i) + of_nat (nat_of_digits f) / 10 ^ length f) else None)"

definition plain_decimal :: "string \<Rightarrow> rat option" where
  "plain_decimal s = (case s of [] \<Rightarrow> None
     | c # t \<Rightarrow> if c = CHR ''-'' then map_option uminus (unsigned_decimal t) else unsigned_decimal s)"

text \<open>
  Two row sorts that both return the rows in ascending date order: an insertion sort,
  which keeps rows of one date in their order, and the same sort run on the reversed
  frame, which reverses them.
\<close>

definition date_sort :: "(date \<times> cell list) list \<Rightarrow> (date \<times> cell list) list" where
  "date_sort xs = sort_key fst xs"


subsection \<open>Example inputs\<close>

text \<open>
  A ledger of two months, in date order: a credit in March, a debit in April; and the
  summary of that ledger.
\<close>

definition march_txn :: txn where
  "march_txn = \<lparr>Transaction_Date = (2024, 3, 15), Value_Date = Str ''15.03.2024'',
     Transaction_Details = Str ''SALARY'', Money_Out = None, Money_In = Some 1200,
     Ledger_Balance = Some 1200, Bank_Reference_Number = Str ''R1''\<rparr>"

definition april_txn :: txn where
  "april_txn = \<lparr>Transaction_Date = (2024, 4, 10), Value_Date = Str ''10.04.2024'',
     Transaction_Details = Str ''POS'', Money_Out = Some (- 100), Money_In = None,
     Ledger_Balance = Some 1100, Bank_Reference_Number = Str ''R2''\<rparr>"

definition two_month_ledger :: ledger where
  "two_month_ledger = \<lparr>records = [march_txn, april_txn], Month = None\<rparr>"

definition two_month_summary :: summary where
  "two_month_summary =
     \<lparr>Total_Money_In = 1200, Total_Money_Out = - 100, Net_Movement = 1100,
      Number_of_Transactions = 2, Number_of_Incoming_Transactions = 1,
      Number_of_Outgoing_Transactions = 1, Average_Transaction_In = Fin 1200,
      Average_Transaction_Out = Fin (- 100), Largest_Transaction_In = Fin 1200,
      Largest_Transaction_Out = Fin (- 100), First_Transaction_Date = (2024, 3, 15),
      Last_Transaction_Date = (2024, 4, 10)\<rparr>"

text \<open>
A ledger of one row whose details cell was empty in the statement.
\<close>

definition no_details_txn :: txn where
  "no_details_txn = \<lparr>Transaction_Date = (2024, 3, 15), Value_Date = NaN,
     Transaction_Details = NaN, Money_Out = Some (- 100), Money_In = None,
     Ledger_Balance = Some 900, Bank_Reference_Number = NaN\<rparr>"

definition no_details_ledger :: ledger where
  "no_details_ledger = \<lparr>records = [no_details_txn], Month = None\<rparr>"

text \<open>
  A page table of seven columns: the header row, an empty row, the April row and then
  the March row.
\<close>

definition header_row :: "cell list" where
  "header_row = [Str ''Transaction Date'', Str ''Value Date'', Str ''Transaction Details'',
     Str ''Money Out'', Str ''Money In'', Str ''Ledger Balance'', Str ''Bank Reference Number'']"

definition april_row :: "cell list" where
  "april_row = [Str ''10.04.2024'', Str ''10.04.2024'', Str ''POS'', Str ''-100.00'', NaN,
     Str ''$1,100.00'', Str ''R2'']"

definition march_row :: "cell list" where
  "march_row = [Str ''15.03.2024'', Str ''15.03.2024'', Str ''SALARY'', NaN, Str ''$1,200.00'',
     Str ''1,200.00'', Str ''R1'']"

definition statement_page :: raw_table where
  "statement_page = \<lparr>n_columns = 7,
     body = [header_row, [NaN, NaN, NaN, NaN, NaN, NaN, NaN], april_row, march_row]\<rparr>"

text \<open>
A page table of six columns with one dated row.
\<close>

definition six_column_table :: raw_table where
  "six_column_table = \<lparr>n_columns = 6,
     body = [[Str ''15.03.2024'', Str ''15.03.2024'', Str ''POS'', Str ''-100.00'', NaN, Str ''900.00'']]\<rparr>"

text \<open>
A page whose only row has a date and neither money in nor money out.
\<close>

definition no_money_page :: raw_table where
  "no_money_page = \<lparr>n_columns = 7,
     body = [[Str ''15.03.2024'', Str ''15.03.2024'', Str ''OPENING BALANCE'', NaN, NaN, Str ''900.00'', NaN]]\<rparr>"

text \<open>
  A page whose date cell has the shape of a date and names no calendar day, and a page
  whose date cell holds a word before the date.
\<close>

definition impossible_date_page :: raw_table where
  "impossible_date_page = \<lparr>n_columns = 7,
     body = [[Str ''31.02.2024'', NaN, Str ''POS'', Str ''-100.00'', NaN, Str ''900.00'', NaN]]\<rparr>"

definition labelled_date_row :: "cell list" where
  "labelled_date_row = [Str ''Date 15.03.2024'', NaN, Str ''POS'', Str ''-100.00'', NaN, Str ''900.00'', NaN]"

definition labelled_date_page :: raw_table where
  "labelled_date_page = \<lparr>n_columns = 7, body = [labelled_date_row]\<rparr>"


text \<open>
  A page of seven columns whose only row has no date cell, and a page that holds the
  header row only.
\<close>

definition totals_page :: raw_table where
  "totals_page = \<lparr>n_columns = 7,
     body = [[NaN, NaN, Str ''Closing balance'', NaN, NaN, Str ''900.00'', NaN]]\<rparr>"

definition header_only_page :: raw_table where
  "header_only_page = \<lparr>n_columns = 7, body = [header_row]\<rparr>"

section \<open>Properties\<close>

subsection \<open>The date pattern and the date parser\<close>

lemma date_pattern_here_length: "date_pattern_here s \<Longrightarrow> 10 \<le> length s"
  by (induction s rule: date_pattern_here.induct) simp_all

lemma re_search_date_length: "re_search_date s \<Longrightarrow> 10 \<le> length s"
  by (induction s) (auto dest: date_pattern_here_length)

lemma re_search_date_exact: "length s = 10 \<Longrightarrow> re_search_date s = date_pattern_here s"
proof (cases s)
  case Nil
  then show ?thesis by simp
next
  case (Cons c cs)
  assume "length s = 10"
  with Cons have "length cs < 10" by simp
  then have "\<not> re_search_date cs"
    using re_search_date_length [of cs] by auto
  with Cons show ?thesis by simp
qed

lemma day_of_length: "day_of s = Some n \<Longrightarrow> length s \<le> 2"
  by (auto simp: day_of_def split: list.splits)

lemma month_of_length: "month_of s = Some n \<Longrightarrow> length s \<le> 2"
  by (auto simp: month_of_def split: list.splits)

lemma year_of_length: "year_of s = Some n \<Longrightarrow> length s = 4"
  by (auto simp: year_of_def split: list.splits)

lemma split_dot_length:
  "split_dot s = (a, b) \<Longrightarrow> length s \<le> length a + 1 + length b"
proof -
  assume h: "split_dot s = (a, b)"
  let ?P = "\<lambda>c. c \<noteq> CHR ''.''"
  have "length s = length (takeWhile ?P s) + length (dropWhile ?P s)"
    by (metis length_append takeWhile_dropWhile_id)
  moreover have "length (dropWhile ?P s) \<le> 1 + length (drop 1 (dropWhile ?P s))"
    by simp
  ultimately show ?thesis
    using h by (auto simp: split_dot_def)
qed

lemma to_datetime_length:
  assumes "to_datetime s = Some d"
  shows "length s \<le> 10"
proof -
  obtain a r where ar: "split_dot s = (a, r)" by (cases "split_dot s")
  obtain m y where my: "split_dot r = (m, y)" by (cases "split_dot r")
  from assms ar my obtain dd mm yy where
    "day_of a = Some dd" "month_of m = Some mm" "year_of y = Some yy"
    by (auto simp: to_datetime_def split: option.splits)
  then have "length a \<le> 2" "length m \<le> 2" "length y = 4"
    by (auto dest: day_of_length month_of_length year_of_length)
  with split_dot_length [OF ar] split_dot_length [OF my] show ?thesis
    by linarith
qed

lemma contains_and_parses_strict:
  assumes "re_search_date s" and "to_datetime s = Some d"
  shows "strict_date s"
proof -
  have "length s = 10"
    using re_search_date_length [OF assms(1)] to_datetime_length [OF assms(2)] by simp
  with assms(1) show ?thesis
    by (simp add: strict_date_def re_search_date_exact)
qed

lemma strict_date_contains: "strict_date s \<Longrightarrow> re_search_date s"
  by (simp add: strict_date_def re_search_date_exact)

lemma header_not_date: "\<not> re_search_date ''Transaction Date''"
  by (simp add: is_digit_def)

subsection \<open>What the loop of \<^verbatim>\<open>process_pdf\<close> keeps\<close>

lemma empty_row_no_date: "list_all (\<lambda>c. c = NaN) r \<Longrightarrow> \<not> str_contains_date (cell_at r 0)"
  by (cases r) (simp_all add: cell_at_def str_contains_date_def)

lemma filter_dropna_all:
  "filter (\<lambda>r. str_contains_date (cell_at r 0)) (dropna_all rows) =
     filter (\<lambda>r. str_contains_date (cell_at r 0)) rows"
  unfolding dropna_all_def filter_filter
  by (rule filter_cong) (auto dest: empty_row_no_date)

lemma process_table_rows:
  "process_table t = Inr p \<Longrightarrow> p = filter (\<lambda>r. str_contains_date (cell_at r 0)) (body t)"
  by (auto simp: process_table_def filter_dropna_all split: if_splits)

lemma process_tables_rows:
  "process_tables tables = Inr ps \<Longrightarrow>
     concat ps = date_rows tables \<and> length ps = length (wide_tables tables)"
proof (induction tables arbitrary: ps)
  case Nil
  then show ?case by (simp add: date_rows_def wide_tables_def)
next
  case (Cons t ts)
  show ?case
  proof (cases "6 \<le> n_columns t")
    case False
    with Cons show ?thesis by (simp add: date_rows_def wide_tables_def)
  next
    case True
    with Cons.prems obtain p qs where
      p: "process_table t = Inr p" and qs: "process_tables ts = Inr qs" and ps: "ps = p # qs"
      by (auto split: sum.splits)
    from Cons.IH [OF qs] process_table_rows [OF p] True ps show ?thesis
      by (simp add: date_rows_def wide_tables_def)
  qed
qed

lemma header_cell_no_date: "str_contains_date c \<Longrightarrow> c \<noteq> Str ''Transaction Date''"
  using header_not_date by (auto simp: str_contains_date_def)

lemma concat_rows_date_rows:
  assumes "process_tables tables = Inr ps"
  shows "concat_rows ps = date_rows tables"
proof -
  have "concat_rows ps = filter (\<lambda>r. cell_at r 0 \<noteq> Str ''Transaction Date'') (date_rows tables)"
    using process_tables_rows [OF assms] by (simp add: concat_rows_def)
  also have "\<dots> = date_rows tables"
    unfolding date_rows_def filter_filter
    by (rule filter_cong) (auto dest: header_cell_no_date)
  finally show ?thesis .
qed

lemma parse_dates_rows:
  "parse_dates rs = Some dated \<Longrightarrow>
     map snd dated = rs \<and>
     list_all (\<lambda>x. \<exists>s. cell_at (snd x) 0 = Str s \<and> to_datetime s = Some (fst x)) dated"
proof (induction rs arbitrary: dated)
  case Nil
  then show ?case by simp
next
  case (Cons r rs)
  from Cons.prems obtain s d ds where
    "cell_at r 0 = Str s" "to_datetime s = Some d" "parse_dates rs = Some ds" "dated = (d, r) # ds"
    by (auto split: cell.splits option.splits)
  with Cons.IH [of ds] show ?case by simp
qed

lemma process_pdf_ledger:
  assumes "process_pdf srt num tables = Inr (Some df)"
  shows "\<exists>dated. parse_dates (date_rows tables) = Some dated \<and>
     df = \<lparr>records = map (to_txn num) (srt dated), Month = None\<rparr> \<and> wide_tables tables \<noteq> []"
proof -
  from assms obtain ps where ps: "process_tables tables = Inr ps"
    by (auto simp: process_pdf_def split: sum.splits)
  with assms have ne: "ps \<noteq> []"
    by (auto simp: process_pdf_def split: if_splits)
  with assms ps obtain dated where
    "parse_dates (concat_rows ps) = Some dated"
    "df = \<lparr>records = map (to_txn num) (srt dated), Month = None\<rparr>"
    by (auto simp: process_pdf_def split: option.splits)
  moreover have "wide_tables tables \<noteq> []"
    using process_tables_rows [OF ps] ne by auto
  ultimately show ?thesis
    by (auto simp: concat_rows_date_rows [OF ps])
qed

lemma parsed_rows_strict:
  assumes "parse_dates (date_rows tables) = Some dated"
  shows "date_rows tables = strict_rows tables"
proof -
  have all: "list_all (\<lambda>x. \<exists>s. cell_at (snd x) 0 = Str s \<and> to_datetime s = Some (fst x)) dated"
    and rows: "map snd dated = date_rows tables"
    using parse_dates_rows [OF assms] by simp_all
  have ok: "strict_date_cell (cell_at r 0)" if "r \<in> set (date_rows tables)" for r
  proof -
    from that rows obtain x where x: "x \<in> set dated" "snd x = r"
      by (metis (no_types, lifting) imageE list.set_map)
    with all obtain s where s: "cell_at r 0 = Str s" "to_datetime s = Some (fst x)"
      by (auto simp: list_all_iff)
    from that have "str_contains_date (cell_at r 0)"
      by (simp add: date_rows_def)
    with s show ?thesis
      by (auto simp: str_contains_date_def strict_date_cell_def intro: contains_and_parses_strict)
  qed
  have imp: "strict_date_cell c \<Longrightarrow> str_contains_date c" for c
    by (auto simp: strict_date_cell_def str_contains_date_def strict_date_contains split: cell.splits)
  have "filter (\<lambda>r. strict_date_cell (cell_at r 0)) (date_rows tables) = date_rows tables"
    using ok by (simp add: filter_id_conv)
  moreover have "filter (\<lambda>r. strict_date_cell (cell_at r 0)) (date_rows tables) = strict_rows tables"
    unfolding date_rows_def strict_rows_def filter_filter
    by (rule filter_cong) (auto dest: imp)
  ultimately show ?thesis by simp
qed

lemma sorts_by_date_mset: "sorts_by_date srt \<Longrightarrow> mset (srt xs) = mset xs"
  by (simp add: sorts_by_date_def)


lemma sorts_by_date_Nil: "sorts_by_date srt \<Longrightarrow> srt [] = []"
  using sorts_by_date_mset [of srt "[]"] by simp


lemma ledger_permutation:
  assumes "sorts_by_date srt" and "process_pdf srt num tables = Inr (Some df)"
  shows "\<exists>dated. parse_dates (date_rows tables) = Some dated \<and>
     map snd dated = date_rows tables \<and>
     records df = map (to_txn num) (srt dated) \<and>
     mset (records df) = mset (map (to_txn num) dated)"
proof -
  from process_pdf_ledger [OF assms(2)] obtain dated where
    d: "parse_dates (date_rows tables) = Some dated"
    and df: "df = \<lparr>records = map (to_txn num) (srt dated), Month = None\<rparr>"
    by blast
  have "mset (map (to_txn num) (srt dated)) = mset (map (to_txn num) dated)"
    using sorts_by_date_mset [OF assms(1), of dated] by (metis mset_map)
  with d df parse_dates_rows [OF d] show ?thesis by auto
qed

lemma text_row_kept:
  assumes "r \<in> set rows" and "is_text (cell_at r 0)"
  shows "str_accessor_ok (dropna_all rows)"
proof -
  from assms(2) have "\<not> list_all (\<lambda>c. c = NaN) r"
    by (cases r) (auto simp: cell_at_def is_text_def)
  with assms(1) have "r \<in> set (dropna_all rows)"
    by (simp add: dropna_all_def)
  with assms(2) show ?thesis
    by (auto simp: str_accessor_ok_def list_ex_iff)
qed

lemma process_tables_succeeds:
  assumes "\<forall>t \<in> set (wide_tables tables).
      n_columns t = 7 \<and> (\<exists>r \<in> set (body t). is_text (cell_at r 0))"
  shows "\<exists>ps. process_tables tables = Inr ps"
  using assms
proof (induction tables)
  case Nil
  then show ?case by simp
next
  case (Cons t ts)
  have sub: "set (wide_tables ts) \<subseteq> set (wide_tables (t # ts))"
    by (auto simp: wide_tables_def)
  with Cons.prems have "\<forall>t \<in> set (wide_tables ts).
      n_columns t = 7 \<and> (\<exists>r \<in> set (body t). is_text (cell_at r 0))"
    by blast
  with Cons.IH obtain qs where qs: "process_tables ts = Inr qs" by blast
  show ?case
  proof (cases "6 \<le> n_columns t")
    case False
    with qs show ?thesis by simp
  next
    case True
    then have "t \<in> set (wide_tables (t # ts))"
      by (simp add: wide_tables_def)
    with Cons.prems have seven: "n_columns t = 7"
      and "\<exists>r \<in> set (body t). is_text (cell_at r 0)"
      by blast+
    then obtain r where "r \<in> set (body t)" "is_text (cell_at r 0)"
      by blast
    then have "str_accessor_ok (dropna_all (body t))"
      by (rule text_row_kept)
    with seven obtain p where "process_table t = Inr p"
      by (simp add: process_table_def canonical_columns_def)
    with True qs show ?thesis by simp
  qed
qed

subsection \<open>The example page, evaluated\<close>

lemmas date_defs = to_datetime_def split_dot_def day_of_def month_of_def year_of_def
  is_digit_def digit_val_def days_in_month_def leap_year_def

lemmas number_defs = clean_money_def strip_currency_def plain_decimal_def unsigned_decimal_def
  nat_of_digits_def split_dot_def is_digit_def digit_val_def

lemmas table_defs = process_table_def canonical_columns_def str_accessor_ok_def
  dropna_all_def is_text_def cell_at_def str_contains_date_def is_digit_def

lemma sorts_by_date_date_sort: "sorts_by_date date_sort"
  by (simp add: sorts_by_date_def date_sort_def)


lemma date_april: "to_datetime ''10.04.2024'' = Some (2024, 4, 10)"
  by code_simp

lemma date_march: "to_datetime ''15.03.2024'' = Some (2024, 3, 15)"
  by code_simp

lemma statement_page_tables:
  "process_tables [statement_page] = Inr [[april_row, march_row]]"
  by (simp add: statement_page_def process_table_def canonical_columns_def str_accessor_ok_def
      dropna_all_def is_text_def cell_at_def header_row_def april_row_def march_row_def
      str_contains_date_def is_digit_def)

lemma statement_page_dated:
  "parse_dates (concat_rows [[april_row, march_row]]) =
     Some [((2024, 4, 10), april_row), ((2024, 3, 15), march_row)]"
  by (simp add: concat_rows_def cell_at_def april_row_def march_row_def date_april date_march)

lemma to_txn_april: "to_txn plain_decimal ((2024, 4, 10), april_row) = april_txn"
  by (simp add: to_txn_def april_row_def cell_at_def number_defs april_txn_def)

lemma to_txn_march: "to_txn plain_decimal ((2024, 3, 15), march_row) = march_txn"
  by (simp add: to_txn_def march_row_def cell_at_def number_defs march_txn_def)

lemma statement_page_two_month:
  "process_pdf date_sort plain_decimal [statement_page] = Inr (Some two_month_ledger)"
  unfolding process_pdf_def statement_page_tables
  by (simp add: statement_page_dated date_sort_def to_txn_april to_txn_march two_month_ledger_def)

lemma statement_page_date_rows: "date_rows [statement_page] = [april_row, march_row]"
  using process_tables_rows [OF statement_page_tables] by simp

subsection \<open>Columns of the monthly frame\<close>

lemma assign_dates_id: "assign_dates df = df"
  by (simp add: assign_dates_def as_datetime_def)







lemma length_cumsum_from: "length (cumsum_from a xs) = length xs"
  by (induction xs arbitrary: a) simp_all

lemma cumsum_from_nth:
  "i < length xs \<Longrightarrow> cumsum_from a xs ! i = a + sum_list (take (Suc i) xs)"
proof (induction xs arbitrary: a i)
  case Nil
  then show ?case by simp
next
  case (Cons x xs)
  then show ?case by (cases i) (simp_all add: add.assoc)
qed

lemma cumsum_nth: "i < length xs \<Longrightarrow> cumsum xs ! i = sum_list (take (Suc i) xs)"
  by (simp add: cumsum_def cumsum_from_nth)


lemma length_col_Money_In: "length (col_Money_In rows) = length (col_Month rows)"
  by (simp add: col_Money_In_def)

lemma length_col_Money_Out: "length (col_Money_Out rows) = length (col_Month rows)"
  by (simp add: col_Money_Out_def)

lemma length_col_Transaction_Details:
  "length (col_Transaction_Details rows) = length (col_Month rows)"
  by (simp add: col_Transaction_Details_def)

lemma length_monthly_rows: "length (monthly_rows rows) = length (col_Month rows)"
  by (simp add: monthly_rows_def)

lemma monthly_rows_nth:
  "i < length (col_Month rows) \<Longrightarrow> monthly_rows rows ! i = monthly_row rows i"
  by (simp add: monthly_rows_def)

lemma map_nth_upt: "length xs = n \<Longrightarrow> map (\<lambda>i. f (xs ! i)) [0..<n] = map f xs"
  by (auto simp: list_eq_iff_nth_eq)

lemma map_m_Money_In: "map m_Money_In (monthly_rows rows) = col_Money_In rows"
  using map_nth_upt [of "col_Money_In rows" "length (col_Month rows)" "\<lambda>x. x"]
  by (simp add: monthly_rows_def monthly_row_def o_def length_col_Money_In)

lemma map_m_Money_Out: "map m_Money_Out (monthly_rows rows) = col_Money_Out rows"
  using map_nth_upt [of "col_Money_Out rows" "length (col_Month rows)" "\<lambda>x. x"]
  by (simp add: monthly_rows_def monthly_row_def o_def length_col_Money_Out)

lemma map_m_Transaction_Details:
  "map m_Transaction_Details (monthly_rows rows) = col_Transaction_Details rows"
  using map_nth_upt [of "col_Transaction_Details rows" "length (col_Month rows)" "\<lambda>x. x"]
  by (simp add: monthly_rows_def monthly_row_def o_def length_col_Transaction_Details)

lemma map_m_Month: "map m_Month (monthly_rows rows) = col_Month rows"
  using map_nth_upt [of "col_Month rows" "length (col_Month rows)" "\<lambda>x. x"]
  by (simp add: monthly_rows_def monthly_row_def o_def)


lemma create_monthly_totals_fst:
  "fst (create_monthly_totals df) =
     monthly_rows (records df) @ [grand_totals (monthly_rows (records df))]"
  by (simp add: create_monthly_totals_def Let_def assign_dates_id)



lemma two_month_labels: "col_Month (records two_month_ledger) = [''April 2024'', ''March 2024'']"
  by (simp add: two_month_ledger_def march_txn_def april_txn_def col_Month_def group_keys_def
      month_column_def strftime_B_Y_def month_names_def four_digits_def digit_char_def)




subsection \<open>The frame after each call\<close>

lemma create_summary_snd: "snd (create_summary df) = df"
  by (simp add: create_summary_def)

lemma create_daily_totals_snd: "snd (create_daily_totals df) = df"
  by (simp add: create_daily_totals_def assign_dates_id)

lemma create_monthly_totals_snd:
  "snd (create_monthly_totals df) = df\<lparr>Month := Some (month_column (records df))\<rparr>"
  by (simp add: create_monthly_totals_def Let_def assign_dates_id)

lemma summary_of_empty: "summary_of [] = Inl IndexError"
  by (simp add: summary_of_def iloc_first_def)

lemma summary_of_nonempty: "rows \<noteq> [] \<Longrightarrow> \<exists>s. summary_of rows = Inr s"
  by (cases rows) (simp_all add: summary_of_def iloc_first_def iloc_last_def Let_def)

lemma two_month_summary_of:
  "summary_of (records two_month_ledger) = Inr two_month_summary"
  by (simp add: two_month_ledger_def march_txn_def april_txn_def summary_of_def Let_def
      iloc_first_def iloc_last_def nansum_def notna_count_def mean_def present_def
      series_max_def series_min_def two_month_summary_def)

lemma two_month_month_column:
  "month_column (records two_month_ledger) = [''March 2024'', ''April 2024'']"
  by (simp add: two_month_ledger_def march_txn_def april_txn_def month_column_def
      strftime_B_Y_def month_names_def four_digits_def digit_char_def)

lemma two_month_date_text:
  "map (\<lambda>r. strftime_d_m_Y (Transaction_Date r)) (records two_month_ledger) =
     [''15.03.2024'', ''10.04.2024'']"
  by (simp add: two_month_ledger_def march_txn_def april_txn_def strftime_d_m_Y_def
      two_digits_def four_digits_def digit_char_def)

subsection \<open>General facts about the frames\<close>

text \<open>
  A table with fewer than six columns takes no part in \<^verbatim>\<open>process_pdf\<close>: the result
  is that of the tables with six columns or more alone.
\<close>

lemma narrow_tables_discarded: "process_tables (wide_tables tables) = process_tables tables"
  by (induction tables) (auto simp: wide_tables_def split: sum.splits)

lemma process_pdf_wide_tables: "process_pdf srt num (wide_tables tables) = process_pdf srt num tables"
  by (simp add: process_pdf_def narrow_tables_discarded)

text \<open>
  The frame of \<^verbatim>\<open>create_daily_totals\<close> has one row for each distinct date of the
  ledger, in ascending order of the date, and the counts of its rows sum to the number
  of ledger rows whose details cell is not missing.
\<close>

lemma daily_rows_dates:
  "map d_Transaction_Date (daily_rows rows) = sort (remdups (map Transaction_Date rows))"
  by (simp add: daily_rows_def daily_row_def group_keys_def o_def Let_def)

lemma daily_rows_one_per_date:
  "length (fst (create_daily_totals df)) = card (set (map Transaction_Date (records df))) \<and>
   sorted (map d_Transaction_Date (fst (create_daily_totals df))) \<and>
   distinct (map d_Transaction_Date (fst (create_daily_totals df)))"
proof -
  have "length (daily_rows (records df)) = length (remdups (map Transaction_Date (records df)))"
    by (simp add: daily_rows_def group_keys_def)
  then have "length (daily_rows (records df)) = card (set (map Transaction_Date (records df)))"
    by (simp only: length_remdups_card_conv)
  then show ?thesis
    by (simp add: create_daily_totals_def assign_dates_id daily_rows_dates)
qed

lemma sum_group_lengths:
  assumes "distinct ks" and "key ` set rows \<subseteq> set ks"
  shows "sum_list (map (\<lambda>k. length (filter P (filter (\<lambda>r. key r = k) rows))) ks) =
     length (filter P rows)"
  using assms(2)
proof (induction rows)
  case Nil
  then show ?case by simp
next
  case (Cons r rs)
  then have k: "key r \<in> set ks" and sub: "key ` set rs \<subseteq> set ks"
    by auto
  have "sum_list (map (\<lambda>k. length (filter P (filter (\<lambda>x. key x = k) (r # rs)))) ks) =
      sum_list (map (\<lambda>k. (if key r = k \<and> P r then 1 else 0) +
        length (filter P (filter (\<lambda>x. key x = k) rs))) ks)"
    by (rule arg_cong [where f = sum_list]) (rule map_cong, auto)
  also have "\<dots> = sum_list (map (\<lambda>k. if key r = k \<and> P r then 1 else 0) ks) +
      sum_list (map (\<lambda>k. length (filter P (filter (\<lambda>x. key x = k) rs))) ks)"
    by (simp add: sum_list_addf)
  also have "sum_list (map (\<lambda>k. if key r = k \<and> P r then 1 else (0::nat)) ks) =
      (if P r then 1 else 0)"
  proof -
    have "sum_list (map (\<lambda>k. if key r = k \<and> P r then 1 else (0::nat)) ks) =
        (\<Sum>k\<in>set ks. if key r = k \<and> P r then 1 else 0)"
      using assms(1) by (simp add: sum_list_distinct_conv_sum_set)
    also have "\<dots> = (\<Sum>k\<in>set ks. if k = key r then (if P r then 1 else 0) else 0)"
      by (rule sum.cong) auto
    also have "\<dots> = (if P r then 1 else 0)"
      using k by simp
    finally show ?thesis .
  qed
  finally show ?case
    using Cons.IH [OF sub] by simp
qed

lemma daily_counts_sum:
  "sum_list (map d_Transaction_Details (fst (create_daily_totals df))) =
     length (filter (\<lambda>r. Transaction_Details r \<noteq> NaN) (records df))"
proof -
  let ?rows = "records df"
  let ?ks = "sort (remdups (map Transaction_Date ?rows))"
  have "map d_Transaction_Details (daily_rows ?rows) =
      map (\<lambda>k. length (filter (\<lambda>r. Transaction_Details r \<noteq> NaN)
        (filter (\<lambda>r. Transaction_Date r = k) ?rows))) ?ks"
    by (simp add: daily_rows_def daily_row_def group_keys_def count_cells_def Let_def
        filter_map o_def)
  moreover have "distinct ?ks" "Transaction_Date ` set ?rows \<subseteq> set ?ks"
    by simp_all
  ultimately show ?thesis
    using sum_group_lengths [of ?ks Transaction_Date ?rows "\<lambda>r. Transaction_Details r \<noteq> NaN"]
    by (simp add: create_daily_totals_def assign_dates_id)
qed

text \<open>
  The monthly rows carry the distinct month labels of the ledger in the order of the
  labels as texts, and their running totals are the sums of the rows so far.
\<close>

lemma monthly_labels_sorted:
  "sorted (map m_Month (monthly_rows rows)) \<and> distinct (map m_Month (monthly_rows rows)) \<and>
   set (map m_Month (monthly_rows rows)) = set (month_column rows)"
  by (simp add: map_m_Month col_Month_def group_keys_def)

lemma running_totals:
  assumes "i < length (monthly_rows rows)"
  shows "m_Running_Total_In (monthly_rows rows ! i) =
      sum_list (take (Suc i) (map m_Money_In (monthly_rows rows))) \<and>
    m_Running_Total_Out (monthly_rows rows ! i) =
      sum_list (take (Suc i) (map m_Money_Out (monthly_rows rows)))"
proof -
  from assms have i: "i < length (col_Month rows)"
    by (simp add: length_monthly_rows)
  then show ?thesis
    by (simp add: monthly_rows_nth monthly_row_def map_m_Money_In map_m_Money_Out cumsum_nth
        length_col_Money_In length_col_Money_Out)
qed

section \<open>The claims\<close>

subsection \<open>C1: order of the monthly rows\<close>

text \<open>
  Claim C1 says that the monthly rows (the grand total apart) come in chronological
  order of the months. At the ledger of two months the code does otherwise: the ledger
  holds a row of March 2024 and then a row of April 2024, and the frame of
  \<^verbatim>\<open>create_monthly_totals\<close> lists April before March, because
  \<^verbatim>\<open>groupby('Month')\<close> sorts the groups by their label, a text.
\<close>

theorem monthly_labels_sorted_example:
  "map Transaction_Date (records two_month_ledger) = [(2024, 3, 15), (2024, 4, 10)] \<and>
   map m_Month (fst (create_monthly_totals two_month_ledger)) =
     [''April 2024'', ''March 2024'', ''GRAND TOTAL'']"
  by (simp add: create_monthly_totals_fst map_m_Month two_month_labels grand_totals_def)
    (simp add: two_month_ledger_def march_txn_def april_txn_def)

subsection \<open>C2: tables of six columns\<close>

text \<open>
  Claim C2 says that every table of six columns or more is retained and given the
  seven column labels, and that no retained table makes the processing fail. At a table
  of six columns the code passes the test \<^verbatim>\<open>len(table.columns) >= 6\<close> and then
  raises \<^verbatim>\<open>ValueError\<close> when it assigns seven labels, whatever the sort and the
  number reader are.
\<close>

theorem six_columns_fail:
  "6 \<le> n_columns six_column_table \<and> process_pdf srt num [six_column_table] = Inl ValueError"
  by (simp add: process_pdf_def six_column_table_def process_table_def canonical_columns_def)

subsection \<open>C3: what the aggregations do to the ledger\<close>

text \<open>
  Claim C3, as amended. \<^verbatim>\<open>create_summary\<close> and \<^verbatim>\<open>create_daily_totals\<close> leave
  the ledger frame as it was. \<^verbatim>\<open>create_monthly_totals\<close> leaves the rows of the
  ledger as they were and adds the column \<^verbatim>\<open>Month\<close>, the label of the month of
  each row. What \<^verbatim>\<open>upload_file\<close> writes as the transactions sheet is the ledger of
  \<^verbatim>\<open>process_pdf\<close> with that column added, its date column formatted back to
  text.
\<close>

theorem aggregation_frame_effect:
  "snd (create_summary df) = df \<and>
   snd (create_daily_totals df) = df \<and>
   snd (create_monthly_totals df) = df\<lparr>Month := Some (month_column (records df))\<rparr> \<and>
   (upload_file srt num tables = Inr (Some wb) \<longrightarrow>
      (\<exists>df0. process_pdf srt num tables = Inr (Some df0) \<and>
         Transactions wb = df0\<lparr>Month := Some (month_column (records df0))\<rparr> \<and>
         Transactions_Date_Text wb =
           map (\<lambda>r. strftime_d_m_Y (Transaction_Date r)) (records df0)))"
proof -
  have up: "\<exists>df0. process_pdf srt num tables = Inr (Some df0) \<and>
         Transactions wb = df0\<lparr>Month := Some (month_column (records df0))\<rparr> \<and>
         Transactions_Date_Text wb =
           map (\<lambda>r. strftime_d_m_Y (Transaction_Date r)) (records df0)"
    if h: "upload_file srt num tables = Inr (Some wb)"
  proof -
    from h obtain df0 where p: "process_pdf srt num tables = Inr (Some df0)"
      by (auto simp: upload_file_def split: sum.splits option.splits)
    from h p obtain s where s: "summary_of (records df0) = Inr s"
      by (auto simp: upload_file_def create_summary_def split: sum.splits)
    obtain daily where d: "create_daily_totals df0 = (daily, df0)"
      using create_daily_totals_snd [of df0] by (metis prod.collapse)
    obtain monthly where m: "create_monthly_totals df0 =
        (monthly, df0\<lparr>Month := Some (month_column (records df0))\<rparr>)"
      using create_monthly_totals_snd [of df0] by (metis prod.collapse)
    from h have "wb = \<lparr>Transactions = df0\<lparr>Month := Some (month_column (records df0))\<rparr>,
        Transactions_Date_Text = map (\<lambda>r. strftime_d_m_Y (Transaction_Date r)) (records df0),
        Summary = s, Daily_Totals = daily, Monthly_Analysis = monthly\<rparr>"
      unfolding upload_file_def p
      by (simp add: create_summary_def s d m)
    with p show ?thesis by simp
  qed
  from up create_summary_snd create_daily_totals_snd create_monthly_totals_snd
  show ?thesis by blast
qed

text \<open>
  The frame effect at the example page: the workbook written for it holds the ledger
  with the column \<^verbatim>\<open>Month\<close>.
\<close>

theorem aggregation_frame_effect_witness:
  "upload_file date_sort plain_decimal [statement_page] =
     Inr (Some \<lparr>Transactions = two_month_ledger\<lparr>Month := Some [''March 2024'', ''April 2024'']\<rparr>,
        Transactions_Date_Text = [''15.03.2024'', ''10.04.2024''],
        Summary = two_month_summary,
        Daily_Totals = fst (create_daily_totals two_month_ledger),
        Monthly_Analysis = fst (create_monthly_totals two_month_ledger)\<rparr>) \<and>
   process_pdf date_sort plain_decimal [statement_page] = Inr (Some two_month_ledger) \<and>
   records (snd (create_monthly_totals two_month_ledger)) = records two_month_ledger"
proof -
  obtain daily where d: "create_daily_totals two_month_ledger = (daily, two_month_ledger)"
    using create_daily_totals_snd [of two_month_ledger] by (metis prod.collapse)
  obtain monthly where m: "create_monthly_totals two_month_ledger =
      (monthly, two_month_ledger\<lparr>Month := Some [''March 2024'', ''April 2024'']\<rparr>)"
    using create_monthly_totals_snd [of two_month_ledger]
    by (metis prod.collapse two_month_month_column)
  have u: "upload_file date_sort plain_decimal [statement_page] =
     Inr (Some \<lparr>Transactions = two_month_ledger\<lparr>Month := Some [''March 2024'', ''April 2024'']\<rparr>,
        Transactions_Date_Text = [''15.03.2024'', ''10.04.2024''],
        Summary = two_month_summary,
        Daily_Totals = fst (create_daily_totals two_month_ledger),
        Monthly_Analysis = fst (create_monthly_totals two_month_ledger)\<rparr>)"
    unfolding upload_file_def statement_page_two_month
    by (simp add: create_summary_def two_month_summary_of d m two_month_date_text)
  have r: "records (snd (create_monthly_totals two_month_ledger)) = records two_month_ledger"
    using aggregation_frame_effect [of two_month_ledger] by simp
  from u statement_page_two_month r show ?thesis by (intro conjI)
qed

text \<open>
  Claim C3 as stated fails: the ledger of two months has no column \<^verbatim>\<open>Month\<close>
  before \<^verbatim>\<open>create_monthly_totals\<close> and has one after it, so the aggregation
  changes the columns of the ledger.
\<close>

theorem monthly_totals_adds_month_column:
  "Month two_month_ledger = None \<and>
   Month (snd (create_monthly_totals two_month_ledger)) = Some [''March 2024'', ''April 2024''] \<and>
   snd (create_monthly_totals two_month_ledger) \<noteq> two_month_ledger"
proof -
  have a: "Month two_month_ledger = None"
    by (simp add: two_month_ledger_def)
  have b: "Month (snd (create_monthly_totals two_month_ledger)) =
      Some [''March 2024'', ''April 2024'']"
    by (simp add: create_monthly_totals_snd two_month_month_column)
  from a b have "snd (create_monthly_totals two_month_ledger) \<noteq> two_month_ledger"
    by auto
  with a b show ?thesis by (intro conjI)
qed

subsection \<open>C4: monetary cells of a retained record\<close>

text \<open>
  Claim C4, as amended. When \<^verbatim>\<open>process_pdf\<close> returns a ledger, it has one record
  for every row that passed the date filter, whatever the monetary cells of the row
  hold; money in and money out of a record are the cleaned cells of its row, each
  missing exactly when its cell is empty or is not read as a number once the
  characters \<^verbatim>\<open>$\<close> and \<^verbatim>\<open>,\<close> are removed. Both may be missing.
\<close>

theorem retained_money_cells:
  assumes "sorts_by_date srt" and "process_pdf srt num tables = Inr (Some df)"
  shows "length (records df) = length (date_rows tables) \<and>
     list_all (\<lambda>tx. \<exists>d r. r \<in> set (date_rows tables) \<and> tx = to_txn num (d, r) \<and>
        Money_In tx = clean_money num (cell_at r 4) \<and>
        Money_Out tx = clean_money num (cell_at r 3)) (records df)"
proof -
  from ledger_permutation [OF assms] obtain dated where
    rows: "map snd dated = date_rows tables"
    and ms: "mset (records df) = mset (map (to_txn num) dated)"
    by blast
  have "length (records df) = length (map (to_txn num) dated)"
    using ms by (metis size_mset)
  also have "\<dots> = length (date_rows tables)"
    using rows by (metis length_map)
  finally have len: "length (records df) = length (date_rows tables)" .
  have "\<exists>d r. r \<in> set (date_rows tables) \<and> tx = to_txn num (d, r) \<and>
        Money_In tx = clean_money num (cell_at r 4) \<and>
        Money_Out tx = clean_money num (cell_at r 3)" if "tx \<in> set (records df)" for tx
  proof -
    from that ms have "tx \<in> set (map (to_txn num) dated)"
      by (metis set_mset_mset)
    then obtain d r where dr: "(d, r) \<in> set dated" "tx = to_txn num (d, r)"
      by auto
    then have "r \<in> set (date_rows tables)"
      using rows by (metis image_eqI list.set_map snd_conv)
    with dr show ?thesis
      by (intro exI [of _ d] exI [of _ r]) (simp add: to_txn_def)
  qed
  with len show ?thesis
    by (simp add: list_all_iff)
qed

text \<open>
The amended claim C4 at the example page: two date rows, two records.
\<close>

theorem retained_money_cells_witness:
  "sorts_by_date date_sort \<and>
   process_pdf date_sort plain_decimal [statement_page] = Inr (Some two_month_ledger) \<and>
   date_rows [statement_page] = [april_row, march_row] \<and>
   length (records two_month_ledger) = 2"
  using retained_money_cells [OF sorts_by_date_date_sort statement_page_two_month]
  by (simp add: sorts_by_date_date_sort statement_page_two_month statement_page_date_rows)

text \<open>
  Claim C4 as stated fails: the row of the page below has a date and neither money in
  nor money out, and \<^verbatim>\<open>process_pdf\<close> retains it with both fields missing.
\<close>

theorem retained_without_money:
  "process_pdf date_sort plain_decimal [no_money_page] =
     Inr (Some \<lparr>records =
       [\<lparr>Transaction_Date = (2024, 3, 15), Value_Date = Str ''15.03.2024'',
         Transaction_Details = Str ''OPENING BALANCE'', Money_Out = None, Money_In = None,
         Ledger_Balance = Some 900, Bank_Reference_Number = NaN\<rparr>], Month = None\<rparr>)"
proof -
  have "process_tables [no_money_page] = Inr [body no_money_page]"
    by (simp add: no_money_page_def table_defs)
  then show ?thesis
    unfolding process_pdf_def
    by (simp add: no_money_page_def concat_rows_def cell_at_def date_march date_sort_def
        to_txn_def number_defs)
qed

subsection \<open>C5: daily totals\<close>

text \<open>
  Claim C5 says that the counts of the days sum to the number of rows of the ledger.
  At a ledger of one row whose details cell is missing the code does otherwise: the
  count of a day is the \<^verbatim>\<open>'count'\<close> aggregate of the details column, which skips
  the row, so the counts sum to 0 while the ledger has 1 row.
\<close>

theorem daily_count_skips_missing_details:
  "length (records no_details_ledger) = 1 \<and>
   map d_Transaction_Details (fst (create_daily_totals no_details_ledger)) = [0] \<and>
   sum_list (map d_Transaction_Details (fst (create_daily_totals no_details_ledger))) = 0"
  by (simp add: create_daily_totals_def assign_dates_id daily_rows_def daily_row_def group_keys_def
      no_details_ledger_def no_details_txn_def count_cells_def)

subsection \<open>C6: month-over-month growth\<close>




subsection \<open>C7: the grand total row\<close>



subsection \<open>C8: rows kept by the date filter\<close>

text \<open>
  Claim C8, as amended. The row filter of \<^verbatim>\<open>process_pdf\<close> keeps a row when its
  transaction-date cell contains the date pattern somewhere. Whenever
  \<^verbatim>\<open>process_pdf\<close> returns a ledger, the rows it kept are exactly the rows (of the
  tables of six columns or more) whose transaction-date cell is the pattern
  \<^verbatim>\<open>DD.MM.YYYY\<close> and nothing else, and the ledger holds one record for each of
  them, built from the row and its parsed date.
\<close>

theorem ledger_rows_are_strict_rows:
  assumes "sorts_by_date srt" and "process_pdf srt num tables = Inr (Some df)"
  shows "date_rows tables = strict_rows tables \<and>
     (\<exists>dated. parse_dates (strict_rows tables) = Some dated \<and>
        map snd dated = strict_rows tables \<and>
        mset (records df) = mset (map (to_txn num) dated))"
proof -
  from ledger_permutation [OF assms] obtain dated where
    d: "parse_dates (date_rows tables) = Some dated"
    and rows: "map snd dated = date_rows tables"
    and ms: "mset (records df) = mset (map (to_txn num) dated)"
    by blast
  have "date_rows tables = strict_rows tables"
    using d by (rule parsed_rows_strict)
  with d rows ms show ?thesis by auto
qed

text \<open>
  The amended claim C8 at the example page: of its four rows the header row and the
  empty row are dropped, the two dated rows are kept.
\<close>

theorem ledger_rows_are_strict_rows_witness:
  "sorts_by_date date_sort \<and>
   process_pdf date_sort plain_decimal [statement_page] = Inr (Some two_month_ledger) \<and>
   body statement_page = [header_row, [NaN, NaN, NaN, NaN, NaN, NaN, NaN], april_row, march_row] \<and>
   strict_rows [statement_page] = [april_row, march_row] \<and>
   parse_dates (strict_rows [statement_page]) =
     Some [((2024, 4, 10), april_row), ((2024, 3, 15), march_row)]"
proof -
  have "date_rows [statement_page] = strict_rows [statement_page]"
    using ledger_rows_are_strict_rows [OF sorts_by_date_date_sort statement_page_two_month]
    by simp
  then have s: "strict_rows [statement_page] = [april_row, march_row]"
    by (simp add: statement_page_date_rows)
  have "parse_dates [april_row, march_row] =
      Some [((2024, 4, 10), april_row), ((2024, 3, 15), march_row)]"
    using statement_page_dated by (simp add: concat_rows_def cell_at_def april_row_def march_row_def)
  then have p: "parse_dates (strict_rows [statement_page]) =
      Some [((2024, 4, 10), april_row), ((2024, 3, 15), march_row)]"
    by (simp only: s)
  have b: "body statement_page = [header_row, [NaN, NaN, NaN, NaN, NaN, NaN, NaN], april_row, march_row]"
    by (simp add: statement_page_def)
  from sorts_by_date_date_sort statement_page_two_month b s p show ?thesis
    by (intro conjI)
qed

text \<open>
  Claim C8 as stated fails twice. A row whose date cell matches the strict pattern and
  names no calendar day (31.02.2024) is not retained: \<^verbatim>\<open>process_pdf\<close> raises
  \<^verbatim>\<open>ValueError\<close>. A row whose date cell does not match the strict pattern and
  contains it (a word, then the date) is kept by the row filter, and
  \<^verbatim>\<open>process_pdf\<close> raises \<^verbatim>\<open>ValueError\<close> again.
\<close>

theorem date_filter_not_strict:
  "strict_date_cell (Str ''31.02.2024'') \<and>
   process_pdf date_sort plain_decimal [impossible_date_page] = Inl ValueError \<and>
   \<not> strict_date_cell (Str ''Date 15.03.2024'') \<and>
   process_tables [labelled_date_page] = Inr [[labelled_date_row]] \<and>
   process_pdf date_sort plain_decimal [labelled_date_page] = Inl ValueError"
proof -
  have a: "strict_date_cell (Str ''31.02.2024'')"
    by (simp add: strict_date_cell_def strict_date_def is_digit_def)
  have b: "\<not> strict_date_cell (Str ''Date 15.03.2024'')"
    by (simp add: strict_date_cell_def strict_date_def)
  have t1: "process_tables [impossible_date_page] = Inr [body impossible_date_page]"
    by (simp add: impossible_date_page_def table_defs)
  have p1: "to_datetime ''31.02.2024'' = None"
    by code_simp
  have c: "process_pdf date_sort plain_decimal [impossible_date_page] = Inl ValueError"
    unfolding process_pdf_def t1
    by (simp add: impossible_date_page_def concat_rows_def cell_at_def p1)
  have t2: "process_tables [labelled_date_page] = Inr [[labelled_date_row]]"
    by (simp add: labelled_date_page_def labelled_date_row_def table_defs)
  have p2: "to_datetime ''Date 15.03.2024'' = None"
    by code_simp
  have d: "process_pdf date_sort plain_decimal [labelled_date_page] = Inl ValueError"
    unfolding process_pdf_def t2
    by (simp add: labelled_date_row_def concat_rows_def cell_at_def p2)
  from a b c t2 d show ?thesis by simp
qed

subsection \<open>C9: order of the ledger\<close>




subsection \<open>C10: the empty ledger\<close>

text \<open>
  Claim C10, as amended. If at least one table has six columns or more, every such
  table has exactly seven columns and a text in the transaction-date cell of some row,
  and no row contains the date pattern, then \<^verbatim>\<open>process_pdf\<close> returns a ledger that
  is present and has no rows; \<^verbatim>\<open>create_summary\<close> on that ledger fails with
  \<^verbatim>\<open>IndexError\<close>, and so does \<^verbatim>\<open>upload_file\<close>. \<^verbatim>\<open>create_summary\<close>
  returns a summary exactly for the ledgers that have a row.
\<close>

theorem empty_ledger_then_summary_fails:
  assumes "sorts_by_date srt"
    and "wide_tables tables \<noteq> []"
    and "\<forall>t \<in> set (wide_tables tables).
      n_columns t = 7 \<and> (\<exists>r \<in> set (body t). is_text (cell_at r 0))"
    and "date_rows tables = []"
  shows "process_pdf srt num tables = Inr (Some \<lparr>records = [], Month = None\<rparr>) \<and>
     fst (create_summary \<lparr>records = [], Month = None\<rparr>) = Inl IndexError \<and>
     upload_file srt num tables = Inl IndexError \<and>
     (\<forall>df. (\<exists>s. fst (create_summary df) = Inr s) \<longleftrightarrow> records df \<noteq> [])"
proof -
  from process_tables_succeeds [OF assms(3)] obtain ps where
    ps: "process_tables tables = Inr ps" by blast
  have "length ps = length (wide_tables tables)"
    using process_tables_rows [OF ps] by simp
  with assms(2) have ne: "ps \<noteq> []" by auto
  have rows: "concat_rows ps = []"
    using concat_rows_date_rows [OF ps] assms(4) by simp
  have pdf: "process_pdf srt num tables = Inr (Some \<lparr>records = [], Month = None\<rparr>)"
    using ne by (simp add: process_pdf_def ps rows sorts_by_date_Nil [OF assms(1)])
  have summ: "fst (create_summary \<lparr>records = [], Month = None\<rparr>) = Inl IndexError"
    by (simp add: create_summary_def summary_of_empty)
  have up: "upload_file srt num tables = Inl IndexError"
    by (simp add: upload_file_def pdf create_summary_def summary_of_empty)
  have pre: "(\<exists>s. fst (create_summary df) = Inr s) \<longleftrightarrow> records df \<noteq> []" for df
    using summary_of_nonempty [of "records df"]
    by (auto simp: create_summary_def summary_of_empty)
  from pdf summ up pre show ?thesis by blast
qed

text \<open>
  The amended claim C10 at a page that holds the header row only.
\<close>

theorem empty_ledger_then_summary_fails_witness:
  "sorts_by_date date_sort \<and> wide_tables [header_only_page] = [header_only_page] \<and>
   n_columns header_only_page = 7 \<and> is_text (cell_at header_row 0) \<and>
   date_rows [header_only_page] = [] \<and>
   process_pdf date_sort plain_decimal [header_only_page] =
     Inr (Some \<lparr>records = [], Month = None\<rparr>) \<and>
   upload_file date_sort plain_decimal [header_only_page] = Inl IndexError"
proof -
  have w: "wide_tables [header_only_page] = [header_only_page]"
    by (simp add: wide_tables_def header_only_page_def)
  have n: "n_columns header_only_page = 7"
    by (simp add: header_only_page_def)
  have tx: "is_text (cell_at header_row 0)"
    by (simp add: header_row_def cell_at_def is_text_def)
  have d: "date_rows [header_only_page] = []"
    unfolding date_rows_def w
    by (simp add: header_only_page_def header_row_def cell_at_def str_contains_date_def is_digit_def)
  have ne: "wide_tables [header_only_page] \<noteq> []"
    by (simp add: w)
  have all: "\<forall>t \<in> set (wide_tables [header_only_page]).
      n_columns t = 7 \<and> (\<exists>r \<in> set (body t). is_text (cell_at r 0))"
    using tx by (simp add: w) (simp add: header_only_page_def)
  from empty_ledger_then_summary_fails [OF sorts_by_date_date_sort ne all d, of plain_decimal]
    sorts_by_date_date_sort w n tx d
  show ?thesis by (intro conjI) simp_all
qed

text \<open>
  Claim C10 as stated fails: the page below has seven columns, so it passes the column
  test, and none of its rows passes the row filters; its transaction-date column holds
  no text, the \<^verbatim>\<open>.str\<close> accessor raises \<^verbatim>\<open>AttributeError\<close>, and
  \<^verbatim>\<open>process_pdf\<close> returns no ledger at all.
\<close>

theorem no_text_date_column_fails:
  "6 \<le> n_columns totals_page \<and> date_rows [totals_page] = [] \<and>
   process_pdf date_sort plain_decimal [totals_page] = Inl AttributeError"
  by (simp add: date_rows_def wide_tables_def process_pdf_def totals_page_def table_defs)

end
